theory Spec2Isabelle
  imports Main "HOL-Library.Word" "HOL-Library.Sublist"
begin

section \<open>Shared Go types\<close>

text \<open>
  Go strings and byte slices are sequences of bytes: a string is a \<open>string\<close> (an
  Isabelle \<open>char\<close> is one byte) and a \<open>[]byte\<close> is a list of 8-bit words.
  \<open>int64\<close> and \<open>int\<close> are 64-bit words, \<open>int32\<close> is a 32-bit word.
\<close>

type_synonym byte = "8 word"

text \<open>
  \<open>net/http\<close>: a request as \<open>http.NewRequest\<close> builds it and as \<open>Header.Set\<close>
  completes it, and a response. The response body is a stream; it is modelled by what
  \<open>io.ReadAll\<close> yields on it, the bytes or the read error.
\<close>

record http_request =
  Method :: string
  URL :: string
  ReqBody :: string
  Header :: "(string \<times> string) list"

text \<open>
  \<open>pkg/errors\<close>: \<open>errors.New(format, args...)\<close> and
  \<open>errors.Wrap(err, format, args...)\<close>. The format string and its arguments are kept
  as they are passed, not rendered.
\<close>

datatype fmt_arg = ArgStr string | ArgInt int | ArgReq http_request

datatype error =
  New string "fmt_arg list"
| Wrap error string "fmt_arg list"

record http_response =
  StatusCode :: int
  Body :: "error + string"

text \<open>\<open>strings.Contains(s, substr)\<close>: \<open>substr\<close> occurs within \<open>s\<close>.\<close>

fun Contains :: "string \<Rightarrow> string \<Rightarrow> bool" where
  "Contains [] substr = (substr = [])"
| "Contains (c # cs) substr = (prefix substr (c # cs) \<or> Contains cs substr)"

section \<open>internal/domain/action.go\<close>

type_synonym ActionType = string
type_synonym ActionContentLayout = string

definition ActionTypeTest :: ActionType where "ActionTypeTest = ''TEST''"
definition ActionTypeExec :: ActionType where "ActionTypeExec = ''EXEC''"
definition ActionTypeQbittorrent :: ActionType where "ActionTypeQbittorrent = ''QBITTORRENT''"
definition ActionTypeDelugeV1 :: ActionType where "ActionTypeDelugeV1 = ''DELUGE_V1''"
definition ActionTypeDelugeV2 :: ActionType where "ActionTypeDelugeV2 = ''DELUGE_V2''"
definition ActionTypeRTorrent :: ActionType where "ActionTypeRTorrent = ''RTORRENT''"
definition ActionTypeTransmission :: ActionType where "ActionTypeTransmission = ''TRANSMISSION''"
definition ActionTypePorla :: ActionType where "ActionTypePorla = ''PORLA''"
definition ActionTypeWatchFolder :: ActionType where "ActionTypeWatchFolder = ''WATCH_FOLDER''"
definition ActionTypeWebhook :: ActionType where "ActionTypeWebhook = ''WEBHOOK''"
definition ActionTypeRadarr :: ActionType where "ActionTypeRadarr = ''RADARR''"
definition ActionTypeSonarr :: ActionType where "ActionTypeSonarr = ''SONARR''"
definition ActionTypeLidarr :: ActionType where "ActionTypeLidarr = ''LIDARR''"
definition ActionTypeWhisparr :: ActionType where "ActionTypeWhisparr = ''WHISPARR''"
definition ActionTypeReadarr :: ActionType where "ActionTypeReadarr = ''READARR''"
definition ActionTypeSabnzbd :: ActionType where "ActionTypeSabnzbd = ''SABNZBD''"

text \<open>The constants of the \<open>const\<close> block of \<open>ActionType\<close>, in declaration order.\<close>

definition ActionType_consts :: "ActionType list" where
  "ActionType_consts =
    [ActionTypeTest, ActionTypeExec, ActionTypeQbittorrent, ActionTypeDelugeV1,
     ActionTypeDelugeV2, ActionTypeRTorrent, ActionTypeTransmission, ActionTypePorla,
     ActionTypeWatchFolder, ActionTypeWebhook, ActionTypeRadarr, ActionTypeSonarr,
     ActionTypeLidarr, ActionTypeWhisparr, ActionTypeReadarr, ActionTypeSabnzbd]"

text \<open>
  \<open>DownloadClient\<close> is declared outside this file. An Action holds a pointer to one:
  nil, or the address of the client.
\<close>

type_synonym DownloadClient_ptr = "nat option"

text \<open>
  The struct \<open>Action\<close>, field for field. \<open>LimitRatio\<close> is a \<open>float64\<close>, kept as its
  64-bit pattern: no operation of this file computes with it.
\<close>

record Action =
  ID :: "64 word"
  Name :: string
  Type :: ActionType
  Enabled :: bool
  ExecCmd :: string
  ExecArgs :: string
  WatchFolder :: string
  Category :: string
  Tags :: string
  Label :: string
  SavePath :: string
  Paused :: bool
  IgnoreRules :: bool
  SkipHashCheck :: bool
  ContentLayout :: ActionContentLayout
  LimitUploadSpeed :: "64 word"
  LimitDownloadSpeed :: "64 word"
  LimitRatio :: "64 word"
  LimitSeedTime :: "64 word"
  ReAnnounceSkip :: bool
  ReAnnounceDelete :: bool
  ReAnnounceInterval :: "64 word"
  ReAnnounceMaxAttempts :: "64 word"
  WebhookHost :: string
  WebhookType :: string
  WebhookMethod :: string
  WebhookData :: string
  WebhookHeaders :: "string list"
  ExternalDownloadClientID :: "32 word"
  FilterID :: "64 word"
  ClientID :: "32 word"
  Client :: DownloadClient_ptr

text \<open>
  The struct \<open>Release\<close> is declared outside this file. \<open>ParseMacros\<close> reads and writes
  the three fields below; the remaining fields are the record's extension \<open>'x\<close>.
\<close>

record Release =
  TorrentName :: string
  TorrentTmpFile :: string
  TorrentDataRawBytes :: "byte list"

text \<open>
  What \<open>ParseMacros\<close> calls and this file does not define is a parameter:
  \<^item> \<open>release.DownloadTorrentFile()\<close> updates the release in place and the outside
    world \<open>'w\<close> (network, temporary files), and returns an error or nil;
  \<^item> \<open>os.ReadFile(path)\<close> reads the world;
  \<^item> \<open>NewMacro(*release)\<close> builds the macro value \<open>'m\<close> from a copy of the release;
  \<^item> \<open>m.Parse(text)\<close> returns the resolved text and an error or nil.
\<close>

record ('w, 'x, 'm) macro_env =
  DownloadTorrentFile :: "'x Release_scheme \<Rightarrow> 'w \<Rightarrow> error option \<times> 'x Release_scheme \<times> 'w"
  ReadFile :: "'w \<Rightarrow> string \<Rightarrow> error + byte list"
  NewMacro :: "'x Release_scheme \<Rightarrow> 'm"
  Parse :: "'m \<Rightarrow> string \<Rightarrow> string \<times> error option"

text \<open>The calls \<open>ParseMacros\<close> makes to the outside, in the order it makes them.\<close>

datatype io_event = EvDownload bool | EvReadFile string

text \<open>
  \<open>ParseMacros\<close> returns an error or nil (\<open>err\<close>) and works through two pointers: the
  result holds the Action (\<open>act\<close>) and the Release (\<open>rel\<close>) as the call leaves them,
  the world after it and the calls made. \<open>EvDownload ok\<close> records whether
  \<open>DownloadTorrentFile\<close> returned nil.
\<close>

record ('w, 'x) outcome =
  err :: "error option"
  act :: Action
  rel :: "'x Release_scheme"
  world :: 'w
  trace :: "io_event list"

text \<open>The condition of the first \<open>if\<close> (lines 64-67).\<close>

definition download_required :: "Action \<Rightarrow> 'x Release_scheme \<Rightarrow> bool" where
  "download_required a release \<longleftrightarrow>
     TorrentTmpFile release = '''' \<and>
     (Contains (ExecArgs a) ''TorrentPathName'' \<or> Contains (ExecArgs a) ''TorrentDataRawBytes'' \<or>
      Contains (WebhookData a) ''TorrentPathName'' \<or> Contains (WebhookData a) ''TorrentDataRawBytes'' \<or>
      Contains (SavePath a) ''TorrentPathName'' \<or> Type a = ActionTypeWatchFolder)"

text \<open>The condition of the second \<open>if\<close> (lines 74-76).\<close>

definition read_required :: "Action \<Rightarrow> 'x Release_scheme \<Rightarrow> bool" where
  "read_required a release \<longleftrightarrow>
     length (TorrentDataRawBytes release) = 0 \<and>
     (Contains (ExecArgs a) ''TorrentDataRawBytes'' \<or> Contains (WebhookData a) ''TorrentDataRawBytes'' \<or>
      Type a = ActionTypeWatchFolder)"

text \<open>
  Lines 85-99: the seven assignments \<open>a.F, err = m.Parse(a.F)\<close>, each overwriting the one
  variable \<open>err\<close>, then the single test of \<open>err\<close>. The Action is returned as the
  assignments leave it.
\<close>

definition parse_fields :: "('w, 'x, 'm) macro_env \<Rightarrow> Action \<Rightarrow> 'x Release_scheme \<Rightarrow> error option \<times> Action" where
  "parse_fields env a release =
    (let m = NewMacro env release;
         (v, err) = Parse env m (ExecArgs a); a = a\<lparr>ExecArgs := v\<rparr>;
         (v, err) = Parse env m (WatchFolder a); a = a\<lparr>WatchFolder := v\<rparr>;
         (v, err) = Parse env m (Category a); a = a\<lparr>Category := v\<rparr>;
         (v, err) = Parse env m (Tags a); a = a\<lparr>Tags := v\<rparr>;
         (v, err) = Parse env m (Label a); a = a\<lparr>Label := v\<rparr>;
         (v, err) = Parse env m (SavePath a); a = a\<lparr>SavePath := v\<rparr>;
         (v, err) = Parse env m (WebhookData a); a = a\<lparr>WebhookData := v\<rparr>
     in (case err of
           Some e \<Rightarrow> (Some (Wrap e ''could not parse macros for action: %v'' [ArgStr (Name a)]), a)
         | None \<Rightarrow> (None, a)))"

text \<open>
  Lines 74-99, entered once the download step has not failed: the read of the temporary
  file when required, then the substitution.
\<close>

definition read_and_parse ::
  "('w, 'x, 'm) macro_env \<Rightarrow> Action \<Rightarrow> 'x Release_scheme \<Rightarrow> 'w \<Rightarrow> io_event list \<Rightarrow> ('w, 'x) outcome" where
  "read_and_parse env a release w tr =
    (if read_required a release then
       (case ReadFile env w (TorrentTmpFile release) of
          Inl e \<Rightarrow>
            \<lparr>err = Some (Wrap e ''could not read torrent file: %v'' [ArgStr (TorrentTmpFile release)]),
             act = a, rel = release, world = w,
             trace = tr @ [EvReadFile (TorrentTmpFile release)]\<rparr>
        | Inr t \<Rightarrow>
            (let release = release\<lparr>TorrentDataRawBytes := t\<rparr>;
                 (e, a') = parse_fields env a release
             in \<lparr>err = e, act = a', rel = release, world = w,
                 trace = tr @ [EvReadFile (TorrentTmpFile release)]\<rparr>))
     else
       (let (e, a') = parse_fields env a release
        in \<lparr>err = e, act = a', rel = release, world = w, trace = tr\<rparr>))"

text \<open>\<open>func (a *Action) ParseMacros(release *Release) error\<close>, lines 61-100.\<close>

definition ParseMacros ::
  "('w, 'x, 'm) macro_env \<Rightarrow> Action \<Rightarrow> 'x Release_scheme \<Rightarrow> 'w \<Rightarrow> ('w, 'x) outcome" where
  "ParseMacros env a release w =
    (if download_required a release then
       (case DownloadTorrentFile env release w of
          (Some e, release', w') \<Rightarrow>
            \<lparr>err = Some (Wrap e ''webhook: could not download torrent file for release: %v''
                      [ArgStr (TorrentName release')]),
             act = a, rel = release', world = w', trace = [EvDownload False]\<rparr>
        | (None, release', w') \<Rightarrow> read_and_parse env a release' w' [EvDownload True])
     else read_and_parse env a release w [])"

text \<open>
  Successive calls of \<open>ParseMacros\<close> for several Actions against one Release: the
  release and the world are handed from each call to the next, whatever the call returned,
  and the traces are concatenated.
\<close>

fun ParseMacros_seq ::
  "('w, 'x, 'm) macro_env \<Rightarrow> Action list \<Rightarrow> 'x Release_scheme \<Rightarrow> 'w \<Rightarrow> 'x Release_scheme \<times> 'w \<times> io_event list" where
  "ParseMacros_seq env [] release w = (release, w, [])"
| "ParseMacros_seq env (a # as) release w =
    (let out = ParseMacros env a release w;
         (release', w', tr) = ParseMacros_seq env as (rel out) (world out)
     in (release', w', trace out @ tr))"

text \<open>
  The call \<open>p.ParseMacros(release)\<close> through a pointer \<open>p\<close>: Actions live in a store, the
  receiver is the Action at \<open>p\<close>, and the assignments of lines 87-93 go to that Action.
  The result is the outcome of the call and the store after it; a nil or dangling pointer
  panics (\<open>None\<close>).
\<close>

type_synonym Action_store = "nat \<rightharpoonup> Action"

definition ParseMacros_ptr ::
  "('w, 'x, 'm) macro_env \<Rightarrow> Action_store \<Rightarrow> nat \<Rightarrow> 'x Release_scheme \<Rightarrow> 'w \<Rightarrow>
     (('w, 'x) outcome \<times> Action_store) option" where
  "ParseMacros_ptr env store p release w =
    (case store p of
       None \<Rightarrow> None
     | Some a \<Rightarrow>
         (let out = ParseMacros env a release w
          in Some (out, store(p \<mapsto> act out))))"

text \<open>
  \<open>NewMacro\<close> and \<open>Parse\<close> are declared outside this file, and nothing in this file says
  whether they consult anything besides their arguments (a clock, for one). The model above
  takes them as functions of their arguments. The model below is the same code with
  \<open>NewMacro\<close> and \<open>Parse\<close> reading the world as well, as it is when they are called: after
  the download step. On an environment whose \<open>NewMacro\<close> and \<open>Parse\<close> ignore the world
  the two models agree (lemma \<open>ParseMacros'_pure\<close>).
\<close>

record ('w, 'x, 'm) world_env =
  DownloadTorrentFile' :: "'x Release_scheme \<Rightarrow> 'w \<Rightarrow> error option \<times> 'x Release_scheme \<times> 'w"
  ReadFile' :: "'w \<Rightarrow> string \<Rightarrow> error + byte list"
  NewMacro' :: "'w \<Rightarrow> 'x Release_scheme \<Rightarrow> 'm"
  Parse' :: "'w \<Rightarrow> 'm \<Rightarrow> string \<Rightarrow> string \<times> error option"

definition parse_fields' ::
  "('w, 'x, 'm) world_env \<Rightarrow> 'w \<Rightarrow> Action \<Rightarrow> 'x Release_scheme \<Rightarrow> error option \<times> Action" where
  "parse_fields' env w a release =
    (let m = NewMacro' env w release;
         (v, err) = Parse' env w m (ExecArgs a); a = a\<lparr>ExecArgs := v\<rparr>;
         (v, err) = Parse' env w m (WatchFolder a); a = a\<lparr>WatchFolder := v\<rparr>;
         (v, err) = Parse' env w m (Category a); a = a\<lparr>Category := v\<rparr>;
         (v, err) = Parse' env w m (Tags a); a = a\<lparr>Tags := v\<rparr>;
         (v, err) = Parse' env w m (Label a); a = a\<lparr>Label := v\<rparr>;
         (v, err) = Parse' env w m (SavePath a); a = a\<lparr>SavePath := v\<rparr>;
         (v, err) = Parse' env w m (WebhookData a); a = a\<lparr>WebhookData := v\<rparr>
     in (case err of
           Some e \<Rightarrow> (Some (Wrap e ''could not parse macros for action: %v'' [ArgStr (Name a)]), a)
         | None \<Rightarrow> (None, a)))"

definition read_and_parse' ::
  "('w, 'x, 'm) world_env \<Rightarrow> Action \<Rightarrow> 'x Release_scheme \<Rightarrow> 'w \<Rightarrow> io_event list \<Rightarrow> ('w, 'x) outcome" where
  "read_and_parse' env a release w tr =
    (if read_required a release then
       (case ReadFile' env w (TorrentTmpFile release) of
          Inl e \<Rightarrow>
            \<lparr>err = Some (Wrap e ''could not read torrent file: %v'' [ArgStr (TorrentTmpFile release)]),
             act = a, rel = release, world = w,
             trace = tr @ [EvReadFile (TorrentTmpFile release)]\<rparr>
        | Inr t \<Rightarrow>
            (let release = release\<lparr>TorrentDataRawBytes := t\<rparr>;
                 (e, a') = parse_fields' env w a release
             in \<lparr>err = e, act = a', rel = release, world = w,
                 trace = tr @ [EvReadFile (TorrentTmpFile release)]\<rparr>))
     else
       (let (e, a') = parse_fields' env w a release
        in \<lparr>err = e, act = a', rel = release, world = w, trace = tr\<rparr>))"

definition ParseMacros' ::
  "('w, 'x, 'm) world_env \<Rightarrow> Action \<Rightarrow> 'x Release_scheme \<Rightarrow> 'w \<Rightarrow> ('w, 'x) outcome" where
  "ParseMacros' env a release w =
    (if download_required a release then
       (case DownloadTorrentFile' env release w of
          (Some e, release', w') \<Rightarrow>
            \<lparr>err = Some (Wrap e ''webhook: could not download torrent file for release: %v''
                      [ArgStr (TorrentName release')]),
             act = a, rel = release', world = w', trace = [EvDownload False]\<rparr>
        | (None, release', w') \<Rightarrow> read_and_parse' env a release' w' [EvDownload True])
     else read_and_parse' env a release w [])"

text \<open>An environment of the first model, seen as one whose macro engine ignores the world.\<close>

definition pure_env :: "('w, 'x, 'm) macro_env \<Rightarrow> ('w, 'x, 'm) world_env" where
  "pure_env env =
    \<lparr>DownloadTorrentFile' = DownloadTorrentFile env, ReadFile' = ReadFile env,
     NewMacro' = (\<lambda>w. NewMacro env), Parse' = (\<lambda>w. Parse env)\<rparr>"

section \<open>internal/notification/pushover.go\<close>

text \<open>
  \<open>strconv.Itoa\<close> and \<open>fmt.Sprintf("%v", n)\<close> on an integer: its decimal digits, with a
  minus sign when negative.
\<close>

definition digit :: "nat \<Rightarrow> char" where
  "digit n = ''0123456789'' ! n"

fun utoa :: "nat \<Rightarrow> string" where
  "utoa n = (if n < 10 then [digit n] else utoa (n div 10) @ [digit (n mod 10)])"

declare utoa.simps [simp del]

definition Itoa :: "int \<Rightarrow> string" where
  "Itoa i = (if i < 0 then CHR ''-'' # utoa (nat (- i)) else utoa (nat i))"

text \<open>\<open>url.Values\<close> is a \<open>map[string][]string\<close>; \<open>Set\<close> replaces the values of a key by one value.\<close>

type_synonym Values = "string \<rightharpoonup> string list"

definition Values_Set :: "Values \<Rightarrow> string \<Rightarrow> string \<Rightarrow> Values" where
  "Values_Set data k v = data(k \<mapsto> [v])"

text \<open>\<open>req.Header.Set(key, value)\<close>, on keys that are already in canonical form.\<close>

definition Header_Set :: "http_request \<Rightarrow> string \<Rightarrow> string \<Rightarrow> http_request" where
  "Header_Set req k v = req\<lparr>Header := (k, v) # filter (\<lambda>kv. fst kv \<noteq> k) (Header req)\<rparr>"

record pushoverMessage =
  Token :: string
  User :: string
  Message :: string
  Priority :: "32 word"
  Title :: string
  Timestamp :: "64 word"
  Html :: "64 word"

text \<open>
  \<open>domain.Notification\<close> is declared outside this file; these are the fields the
  pushover sender reads.
\<close>

record Notification =
  Enabled :: bool
  APIKey :: string
  Token :: string
  Priority :: "32 word"
  Events :: "string list"

text \<open>
  The sender. Its logger only writes log lines and is left out; its \<open>builder\<close> is a value
  of an empty struct whose methods are parameters below.
\<close>

record pushoverSender =
  Settings :: Notification
  baseUrl :: string

text \<open>
  What \<open>Send\<close> calls and this file does not define: the two methods of the builder
  (over the payload type \<open>'p\<close>), the clock (\<open>time.Now()\<close>, as Unix seconds),
  \<open>url.Values.Encode\<close>, \<open>http.NewRequest\<close> and \<open>http.Client.Do\<close> with its 30 second
  timeout (a timeout is one of its errors).
\<close>

record 'p send_env =
  BuildTitle :: "string \<Rightarrow> string"
  BuildBody :: "'p \<Rightarrow> string"
  NowUnix :: "64 word"
  Encode :: "Values \<Rightarrow> string"
  NewRequest :: "string \<Rightarrow> string \<Rightarrow> string \<Rightarrow> error + http_request"
  Do :: "http_request \<Rightarrow> error + http_response"

definition StatusOK :: int where
  "StatusOK = 200"

text \<open>Lines 48-73 of \<open>Send\<close>: the message and the form data \<open>data\<close> built from it.\<close>

definition Send_data :: "'p send_env \<Rightarrow> pushoverSender \<Rightarrow> string \<Rightarrow> 'p \<Rightarrow> Values" where
  "Send_data env s event payload =
    (let title = BuildTitle env event;
         message = BuildBody env payload;
         m = \<lparr>pushoverMessage.Token = Notification.APIKey (Settings s),
              User = Notification.Token (Settings s),
              Message = message,
              pushoverMessage.Priority = Notification.Priority (Settings s),
              Title = title,
              Timestamp = NowUnix env,
              Html = 1\<rparr>;
         data = Map.empty;
         data = Values_Set data ''token'' (pushoverMessage.Token m);
         data = Values_Set data ''user'' (User m);
         data = Values_Set data ''message'' (Message m);
         data = Values_Set data ''priority'' (Itoa (sint (pushoverMessage.Priority m)));
         data = Values_Set data ''title'' (Title m);
         data = Values_Set data ''timestamp'' (Itoa (sint (Timestamp m)));
         data = Values_Set data ''html'' (Itoa (sint (Html m)))
     in if pushoverMessage.Priority m = 2
        then Values_Set (Values_Set data ''expire'' ''3600'') ''retry'' ''60''
        else data)"

text \<open>
  \<open>func (s *pushoverSender) Send(event, payload) error\<close>, lines 46-109: the request, the
  body read and the status test. The result is the error returned, \<open>None\<close> for nil.
\<close>

definition Send :: "'p send_env \<Rightarrow> pushoverSender \<Rightarrow> string \<Rightarrow> 'p \<Rightarrow> error option" where
  "Send env s event payload =
    (case NewRequest env ''POST'' (baseUrl s) (Encode env (Send_data env s event payload)) of
       Inl e \<Rightarrow> Some (Wrap e ''could not create request'' [])
     | Inr req \<Rightarrow>
         (let req = Header_Set req ''Content-Type'' ''application/x-www-form-urlencoded'';
              req = Header_Set req ''User-Agent'' ''autobrr''
          in case Do env req of
               Inl e \<Rightarrow> Some (Wrap e ''could not make request: %+v'' [ArgReq req])
             | Inr res \<Rightarrow>
                 (case Body res of
                    Inl e \<Rightarrow> Some (Wrap e ''could not read data'' [])
                  | Inr body \<Rightarrow>
                      if StatusCode res \<noteq> StatusOK
                      then Some (New ''bad status: %v body: %v'' [ArgInt (StatusCode res), ArgStr body])
                      else None)))"

text \<open>\<open>isEnabled\<close>, lines 118-134.\<close>

definition isEnabled :: "pushoverSender \<Rightarrow> bool" where
  "isEnabled s =
    (if Notification.Enabled (Settings s) then
       (if APIKey (Settings s) = '''' then False
        else if Notification.Token (Settings s) = '''' then False
        else True)
     else False)"

text \<open>\<open>isEnabledEvent\<close>, lines 136-144: the loop over \<open>s.Settings.Events\<close>.\<close>

fun Events_loop :: "string list \<Rightarrow> string \<Rightarrow> bool" where
  "Events_loop [] event = False"
| "Events_loop (e # es) event = (if e = event then True else Events_loop es event)"

definition isEnabledEvent :: "pushoverSender \<Rightarrow> string \<Rightarrow> bool" where
  "isEnabledEvent s event = Events_loop (Events (Settings s)) event"

text \<open>\<open>CanSend\<close>, lines 111-116.\<close>

definition CanSend :: "pushoverSender \<Rightarrow> string \<Rightarrow> bool" where
  "CanSend s event = (if isEnabled s \<and> isEnabledEvent s event then True else False)"

section \<open>The macro engine and a small world, for evaluation\<close>

text \<open>
  Modelled from the spec: the type \<open>Macro\<close>, \<open>NewMacro\<close> and \<open>Macro.Parse\<close> are not
  in the source files at hand. Sections 4.1 and 6 of the specification: placeholders follow
  the fixed grammar \<open>{{.Name}}\<close> over a closed set of names resolved from the release, and
  resolution fails for an unknown or malformed placeholder. The names kept here are the
  three that \<open>ParseMacros\<close> deals with. The theorems below hold for every \<open>NewMacro\<close>
  and \<open>Parse\<close>; this instance only serves to run the model on concrete templates.
\<close>

type_synonym Macro = "(string \<times> string) list"

definition NewMacro_spec :: "'x Release_scheme \<Rightarrow> Macro" where
  "NewMacro_spec release =
    [(''TorrentName'', TorrentName release),
     (''TorrentPathName'', TorrentTmpFile release),
     (''TorrentDataRawBytes'', map (\<lambda>b. char_of (unat b)) (TorrentDataRawBytes release))]"

datatype scan_state = Text | Brace1 | Brace2 | Field string | Closing string

fun scan :: "Macro \<Rightarrow> scan_state \<Rightarrow> string \<Rightarrow> error + string" where
  "scan m Text [] = Inr []"
| "scan m Brace1 [] = Inr ''{''"
| "scan m st [] = Inl (New ''malformed placeholder'' [])"
| "scan m Text (c # cs) =
     (if c = CHR ''{'' then scan m Brace1 cs else map_sum id (Cons c) (scan m Text cs))"
| "scan m Brace1 (c # cs) =
     (if c = CHR ''{'' then scan m Brace2 cs
      else map_sum id (\<lambda>out. CHR ''{'' # c # out) (scan m Text cs))"
| "scan m Brace2 (c # cs) =
     (if c = CHR ''.'' then scan m (Field []) cs else Inl (New ''malformed placeholder'' []))"
| "scan m (Field n) (c # cs) =
     (if c = CHR ''}'' then scan m (Closing n) cs else scan m (Field (n @ [c])) cs)"
| "scan m (Closing n) (c # cs) =
     (if c = CHR ''}'' then
        (case map_of m n of
           None \<Rightarrow> Inl (New ''unknown placeholder: %v'' [ArgStr n])
         | Some v \<Rightarrow> map_sum id (append v) (scan m Text cs))
      else Inl (New ''malformed placeholder'' []))"

definition Parse_spec :: "Macro \<Rightarrow> string \<Rightarrow> string \<times> error option" where
  "Parse_spec m text =
    (case scan m Text text of
       Inl e \<Rightarrow> ('''', Some e)
     | Inr out \<Rightarrow> (out, None))"

text \<open>
  A small world: what the release's source locator serves (\<open>None\<close> when it cannot be
  reached) and the files on disk. The download stores the payload in one temporary file and
  records its path in the release; reading a file that does not exist fails.
\<close>

record sample_world =
  remote :: "byte list option"
  files :: "string \<rightharpoonup> byte list"

definition sample_download ::
  "'x Release_scheme \<Rightarrow> sample_world \<Rightarrow> error option \<times> 'x Release_scheme \<times> sample_world" where
  "sample_download release w =
    (case remote w of
       None \<Rightarrow> (Some (New ''error downloading file'' []), release, w)
     | Some payload \<Rightarrow>
         (None, release\<lparr>TorrentTmpFile := ''/tmp/autobrr-1''\<rparr>,
          w\<lparr>files := (files w)(''/tmp/autobrr-1'' \<mapsto> payload)\<rparr>))"

definition sample_read :: "sample_world \<Rightarrow> string \<Rightarrow> error + byte list" where
  "sample_read w path =
    (case files w path of
       None \<Rightarrow> Inl (New ''open %v: no such file or directory'' [ArgStr path])
     | Some bytes \<Rightarrow> Inr bytes)"

definition sample_env :: "(sample_world, 'x, Macro) macro_env" where
  "sample_env =
    \<lparr>DownloadTorrentFile = sample_download, ReadFile = sample_read,
     NewMacro = NewMacro_spec, Parse = Parse_spec\<rparr>"

text \<open>A world whose source serves a two-byte payload, and one whose source is down.\<close>

definition online :: sample_world where
  "online = \<lparr>remote = Some [100, 101], files = Map.empty\<rparr>"

definition offline :: sample_world where
  "offline = \<lparr>remote = None, files = Map.empty\<rparr>"

text \<open>A release with nothing cached, and an Action with every field at its zero value.\<close>

definition fresh_release :: Release where
  "fresh_release = \<lparr>TorrentName = ''Some.Release'', TorrentTmpFile = '''', TorrentDataRawBytes = []\<rparr>"

definition zero_action :: Action where
  "zero_action =
    \<lparr>ID = 0, Name = '''', Type = '''', Enabled = False, ExecCmd = '''', ExecArgs = '''',
     WatchFolder = '''', Category = '''', Tags = '''', Label = '''', SavePath = '''',
     Paused = False, IgnoreRules = False, SkipHashCheck = False, ContentLayout = '''',
     LimitUploadSpeed = 0, LimitDownloadSpeed = 0, LimitRatio = 0, LimitSeedTime = 0,
     ReAnnounceSkip = False, ReAnnounceDelete = False, ReAnnounceInterval = 0,
     ReAnnounceMaxAttempts = 0, WebhookHost = '''', WebhookType = '''', WebhookMethod = '''',
     WebhookData = '''', WebhookHeaders = [], ExternalDownloadClientID = 0, FilterID = 0,
     ClientID = 0, Client = None\<rparr>"

text \<open>
  A sender with priority 2 and a transport that answers every request with the given
  status code; \<open>NewRequest\<close> refuses an empty URL. The form data is encoded over the
  keys \<open>Send\<close> may set, in sorted order, with no escaping.
\<close>

definition sample_Encode :: "Values \<Rightarrow> string" where
  "sample_Encode data =
    concat (map (\<lambda>k. case data k of
                           None \<Rightarrow> ''''
                         | Some vs \<Rightarrow> concat (map (\<lambda>v. k @ ''='' @ v @ ''&'') vs))
      [''expire'', ''html'', ''message'', ''priority'', ''retry'', ''timestamp'',
       ''title'', ''token'', ''user''])"

definition sample_send_env :: "int \<Rightarrow> string send_env" where
  "sample_send_env status =
    \<lparr>BuildTitle = (\<lambda>event. event), BuildBody = (\<lambda>payload. payload),
     NowUnix = 1700000000, Encode = sample_Encode,
     NewRequest = (\<lambda>method url body.
        if url = '''' then Inl (New ''empty url'' [])
        else Inr \<lparr>Method = method, URL = url, ReqBody = body, Header = []\<rparr>),
     Do = (\<lambda>req. Inr \<lparr>StatusCode = status, Body = Inr ''{}''\<rparr>)\<rparr>"

definition sample_sender :: pushoverSender where
  "sample_sender =
    \<lparr>Settings = \<lparr>Enabled = True, APIKey = ''key'', Token = ''user'', Priority = 2,
                  Events = [''PUSH_APPROVED'']\<rparr>,
     baseUrl = ''https://api.pushover.net/1/messages.json''\<rparr>"

section \<open>Properties of the macro resolution\<close>

subsection \<open>Unfolding rules and the substitution step\<close>

lemmas ParseMacros_defs =
  ParseMacros_def read_and_parse_def download_required_def read_required_def

lemmas sample_defs =
  sample_env_def sample_download_def sample_read_def Parse_spec_def NewMacro_spec_def
  online_def offline_def fresh_release_def zero_action_def

lemmas ActionType_defs =
  ActionTypeTest_def ActionTypeExec_def ActionTypeQbittorrent_def ActionTypeDelugeV1_def
  ActionTypeDelugeV2_def ActionTypeRTorrent_def ActionTypeTransmission_def ActionTypePorla_def
  ActionTypeWatchFolder_def ActionTypeWebhook_def ActionTypeRadarr_def ActionTypeSonarr_def
  ActionTypeLidarr_def ActionTypeWhisparr_def ActionTypeReadarr_def ActionTypeSabnzbd_def

text \<open>\<open>Contains\<close> is the substring relation.\<close>

lemma Contains_sublist: "Contains s substr \<longleftrightarrow> sublist substr s"
  by (induction s) (auto simp: sublist_Cons_right)

text \<open>
  The substitution rewrites each of the seven fields from its own previous value, and its
  error is decided by the last call of \<open>Parse\<close> alone.
\<close>

lemma parse_fields_act:
  "snd (parse_fields env a release) =
     a\<lparr>ExecArgs := fst (Parse env (NewMacro env release) (ExecArgs a)),
       WatchFolder := fst (Parse env (NewMacro env release) (WatchFolder a)),
       Category := fst (Parse env (NewMacro env release) (Category a)),
       Tags := fst (Parse env (NewMacro env release) (Tags a)),
       Label := fst (Parse env (NewMacro env release) (Label a)),
       SavePath := fst (Parse env (NewMacro env release) (SavePath a)),
       WebhookData := fst (Parse env (NewMacro env release) (WebhookData a))\<rparr>"
  by (simp add: parse_fields_def Let_def split_beta split: option.split)

lemma parse_fields_err:
  "fst (parse_fields env a release) =
     (case snd (Parse env (NewMacro env release) (WebhookData a)) of
        None \<Rightarrow> None
      | Some e \<Rightarrow> Some (Wrap e ''could not parse macros for action: %v'' [ArgStr (Name a)]))"
  by (simp add: parse_fields_def Let_def split_beta split: option.split)

subsection \<open>The read and substitution steps\<close>

lemma read_and_parse_world [simp]: "world (read_and_parse env a release w tr) = w"
  by (simp add: read_and_parse_def Let_def split_beta split: sum.split)

lemma read_and_parse_tmpfile [simp]:
  "TorrentTmpFile (rel (read_and_parse env a release w tr)) = TorrentTmpFile release"
  by (simp add: read_and_parse_def Let_def split_beta split: sum.split)

lemma read_and_parse_trace:
  "trace (read_and_parse env a release w tr) =
     (if read_required a release then tr @ [EvReadFile (TorrentTmpFile release)] else tr)"
  by (simp add: read_and_parse_def Let_def split_beta split: sum.split)

lemma read_and_parse_cached:
  "TorrentDataRawBytes release \<noteq> [] \<Longrightarrow> rel (read_and_parse env a release w tr) = release"
  by (simp add: read_and_parse_def read_required_def Let_def split_beta)

lemma read_and_parse_act_frame:
  "act (read_and_parse env a release w tr)
     \<lparr>ExecArgs := ExecArgs a, WatchFolder := WatchFolder a, Category := Category a,
      Tags := Tags a, Label := Label a, SavePath := SavePath a, WebhookData := WebhookData a\<rparr> = a"
  by (simp add: read_and_parse_def Let_def split_beta parse_fields_act split: sum.split)

subsection \<open>One call of ParseMacros\<close>

lemma ParseMacros_trace:
  "trace (ParseMacros env a release w) =
     (if download_required a release then
        (case DownloadTorrentFile env release w of
           (Some e, r', w') \<Rightarrow> [EvDownload False]
         | (None, r', w') \<Rightarrow>
             EvDownload True # (if read_required a r' then [EvReadFile (TorrentTmpFile r')] else []))
      else if read_required a release then [EvReadFile (TorrentTmpFile release)] else [])"
  by (simp add: ParseMacros_def read_and_parse_trace split: prod.split option.split)

lemma ParseMacros_no_download:
  assumes "TorrentTmpFile release \<noteq> ''''"
  shows "EvDownload ok \<notin> set (trace (ParseMacros env a release w))"
    and "TorrentTmpFile (rel (ParseMacros env a release w)) = TorrentTmpFile release"
  using assms by (simp_all add: ParseMacros_def download_required_def read_and_parse_trace)

lemma ParseMacros_no_read:
  assumes keep: "\<forall>r w. TorrentDataRawBytes r \<noteq> [] \<longrightarrow>
                  TorrentDataRawBytes (fst (snd (DownloadTorrentFile env r w))) \<noteq> []"
    and "TorrentDataRawBytes release \<noteq> []"
  shows "EvReadFile p \<notin> set (trace (ParseMacros env a release w))"
    and "TorrentDataRawBytes (rel (ParseMacros env a release w)) \<noteq> []"
proof -
  obtain d r' w' where D: "DownloadTorrentFile env release w = (d, r', w')"
    by (cases "DownloadTorrentFile env release w") auto
  with keep assms(2) have r': "TorrentDataRawBytes r' \<noteq> []"
    by (metis fst_conv snd_conv)
  show "EvReadFile p \<notin> set (trace (ParseMacros env a release w))"
    using assms(2) r' D by (auto simp: ParseMacros_trace read_required_def split: option.split)
  show "TorrentDataRawBytes (rel (ParseMacros env a release w)) \<noteq> []"
    using assms(2) r' D
    by (auto simp: ParseMacros_def read_and_parse_cached split: option.split)
qed

lemma ParseMacros_download_once:
  assumes sets: "\<forall>r w r' w'. DownloadTorrentFile env r w = (None, r', w') \<longrightarrow> TorrentTmpFile r' \<noteq> ''''"
  shows "length (filter ((=) (EvDownload True)) (trace (ParseMacros env a release w))) \<le> 1"
    and "EvDownload True \<in> set (trace (ParseMacros env a release w)) \<Longrightarrow>
           TorrentTmpFile (rel (ParseMacros env a release w)) \<noteq> ''''"
proof -
  show "length (filter ((=) (EvDownload True)) (trace (ParseMacros env a release w))) \<le> 1"
    by (simp add: ParseMacros_trace split: prod.split option.split)
  assume "EvDownload True \<in> set (trace (ParseMacros env a release w))"
  then obtain r' w' where "download_required a release"
      and D: "DownloadTorrentFile env release w = (None, r', w')"
    by (auto simp: ParseMacros_trace split: prod.splits option.splits if_splits)
  then show "TorrentTmpFile (rel (ParseMacros env a release w)) \<noteq> ''''"
    using sets by (auto simp: ParseMacros_def)
qed

subsection \<open>Successive calls\<close>

lemma ParseMacros_seq_no_download:
  "TorrentTmpFile release \<noteq> '''' \<Longrightarrow>
     EvDownload ok \<notin> set (snd (snd (ParseMacros_seq env as release w)))"
proof (induction as arbitrary: release w)
  case Nil
  then show ?case by simp
next
  case (Cons a as)
  from Cons.prems have "TorrentTmpFile (rel (ParseMacros env a release w)) \<noteq> ''''"
    by (simp add: ParseMacros_no_download)
  from Cons.IH [OF this] Cons.prems show ?case
    by (simp add: Let_def split_beta ParseMacros_no_download)
qed

lemma ParseMacros_seq_no_read:
  assumes keep: "\<forall>r w. TorrentDataRawBytes r \<noteq> [] \<longrightarrow>
                  TorrentDataRawBytes (fst (snd (DownloadTorrentFile env r w))) \<noteq> []"
  shows "TorrentDataRawBytes release \<noteq> [] \<Longrightarrow>
     EvReadFile p \<notin> set (snd (snd (ParseMacros_seq env as release w)))"
proof (induction as arbitrary: release w)
  case Nil
  then show ?case by simp
next
  case (Cons a as)
  from Cons.prems have "TorrentDataRawBytes (rel (ParseMacros env a release w)) \<noteq> []"
    by (rule ParseMacros_no_read(2) [OF keep])
  from Cons.IH [OF this] Cons.prems show ?case
    by (simp add: Let_def split_beta ParseMacros_no_read(1) [OF keep])
qed

lemma filter_empty_if_absent: "x \<notin> set xs \<Longrightarrow> filter ((=) x) xs = []"
  by (induction xs) auto

lemma ParseMacros_seq_download_once:
  assumes sets: "\<forall>r w r' w'. DownloadTorrentFile env r w = (None, r', w') \<longrightarrow> TorrentTmpFile r' \<noteq> ''''"
  shows "length (filter ((=) (EvDownload True)) (snd (snd (ParseMacros_seq env as release w)))) \<le> 1"
proof (induction as arbitrary: release w)
  case Nil
  then show ?case by simp
next
  case (Cons a as)
  let ?out = "ParseMacros env a release w"
  let ?rest = "snd (snd (ParseMacros_seq env as (rel ?out) (world ?out)))"
  have unroll: "snd (snd (ParseMacros_seq env (a # as) release w)) = trace ?out @ ?rest"
    by (simp add: Let_def split_beta)
  show ?case
  proof (cases "EvDownload True \<in> set (trace ?out)")
    case True
    then have "TorrentTmpFile (rel ?out) \<noteq> ''''"
      by (rule ParseMacros_download_once(2) [OF sets])
    then have "EvDownload True \<notin> set ?rest"
      by (rule ParseMacros_seq_no_download)
    then have "filter ((=) (EvDownload True)) ?rest = []"
      by (rule filter_empty_if_absent)
    then show ?thesis
      using ParseMacros_download_once(1) [OF sets, of a release w] unfolding unroll by simp
  next
    case False
    then have "filter ((=) (EvDownload True)) (trace ?out) = []"
      by (rule filter_empty_if_absent)
    then show ?thesis
      using Cons.IH [of "rel ?out" "world ?out"] unfolding unroll by simp
  qed
qed

section \<open>The claims about macro resolution\<close>

text \<open>The rules that evaluate the model on the small world.\<close>

lemmas eval_defs = ParseMacros_defs parse_fields_act parse_fields_err sample_defs ActionType_defs

text \<open>
  C1. The claim: if resolving any one field fails, \<open>ParseMacros\<close> returns an error, also when
  an earlier call of \<open>Parse\<close> fails and a later one succeeds. The code assigns the error of
  each of the seven calls to the one variable \<open>err\<close> and tests it once, after the last call
  (\<open>parse_fields_err\<close>): an earlier error is overwritten. Here \<open>ExecArgs\<close> holds an unknown
  placeholder, whose resolution fails, and \<open>WebhookData\<close> is empty, whose resolution
  succeeds: \<open>ParseMacros\<close> returns nil and leaves \<open>ExecArgs\<close> empty.
\<close>

theorem ParseMacros_keeps_only_last_error:
  "snd (Parse_spec (NewMacro_spec fresh_release) ''{{.Nope}}'') =
     Some (New ''unknown placeholder: %v'' [ArgStr ''Nope''])
   \<and> snd (Parse_spec (NewMacro_spec fresh_release) '''') = None
   \<and> err (ParseMacros sample_env
            (zero_action\<lparr>Type := ActionTypeExec, ExecArgs := ''{{.Nope}}''\<rparr>) fresh_release online) = None
   \<and> ExecArgs (act (ParseMacros sample_env
            (zero_action\<lparr>Type := ActionTypeExec, ExecArgs := ''{{.Nope}}''\<rparr>) fresh_release online)) = ''''"
  by (simp add: eval_defs split_beta)

text \<open>With the path cached a call can only fill the byte cache; with both cached it does nothing.\<close>

lemma ParseMacros_cached_fixpoint:
  assumes "TorrentTmpFile release \<noteq> ''''" and "TorrentDataRawBytes release \<noteq> []"
  shows "rel (ParseMacros env a release w) = release"
    and "world (ParseMacros env a release w) = w"
    and "trace (ParseMacros env a release w) = []"
  using assms
  by (simp_all add: ParseMacros_def download_required_def read_and_parse_cached
      read_and_parse_trace read_required_def)

lemma ParseMacros_seq_tmpfile:
  "TorrentTmpFile release \<noteq> '''' \<Longrightarrow>
     TorrentTmpFile (fst (ParseMacros_seq env as release w)) = TorrentTmpFile release"
proof (induction as arbitrary: release w)
  case Nil
  then show ?case by simp
next
  case (Cons a as)
  from Cons.prems have keep: "TorrentTmpFile (rel (ParseMacros env a release w)) = TorrentTmpFile release"
    by (simp add: ParseMacros_no_download)
  with Cons.prems have "TorrentTmpFile (rel (ParseMacros env a release w)) \<noteq> ''''"
    by simp
  from Cons.IH [OF this] keep show ?case
    by (simp add: Let_def split_beta)
qed

lemma ParseMacros_seq_cached_fixpoint:
  "TorrentTmpFile release \<noteq> '''' \<Longrightarrow> TorrentDataRawBytes release \<noteq> [] \<Longrightarrow>
     ParseMacros_seq env as release w = (release, w, [])"
  by (induction as) (simp_all add: ParseMacros_cached_fixpoint Let_def)

lemma ParseMacros_rel_with_path:
  "TorrentTmpFile release \<noteq> '''' \<Longrightarrow>
     rel (ParseMacros env a release w) =
       (if read_required a release then
          (case ReadFile env w (TorrentTmpFile release) of
             Inl e \<Rightarrow> release
           | Inr t \<Rightarrow> release\<lparr>TorrentDataRawBytes := t\<rparr>)
        else release)"
  by (simp add: ParseMacros_def download_required_def read_and_parse_def Let_def split_beta
      split: sum.split)

text \<open>
  C2. The claim, that the payload is fetched at most once and that once either cache is
  populated later calls perform no further fetch or read, fails on the code in two ways.
  The guard of the download tests \<open>TorrentTmpFile\<close> only: a Release whose byte cache is
  filled and whose path is empty is downloaded all the same. And a download that fails
  leaves the path empty, so each later call that needs the payload invokes
  \<open>DownloadTorrentFile\<close> again: three calls with the source down make three downloads.
\<close>

theorem download_repeated_despite_cached_bytes:
  "TorrentDataRawBytes (fresh_release\<lparr>TorrentDataRawBytes := [100, 101]\<rparr>) \<noteq> []
   \<and> trace (ParseMacros sample_env
        (zero_action\<lparr>Type := ActionTypeExec, ExecArgs := ''{{.TorrentDataRawBytes}}''\<rparr>)
        (fresh_release\<lparr>TorrentDataRawBytes := [100, 101]\<rparr>) online) = [EvDownload True]
   \<and> snd (snd (ParseMacros_seq sample_env
        [zero_action\<lparr>Type := ActionTypeExec, ExecArgs := ''{{.TorrentDataRawBytes}}''\<rparr>,
         zero_action\<lparr>Type := ActionTypeExec, ExecArgs := ''{{.TorrentDataRawBytes}}''\<rparr>,
         zero_action\<lparr>Type := ActionTypeExec, ExecArgs := ''{{.TorrentDataRawBytes}}''\<rparr>]
        fresh_release offline)) = [EvDownload False, EvDownload False, EvDownload False]"
  by (simp add: ParseMacros_trace ParseMacros_def read_and_parse_trace download_required_def
      read_required_def sample_defs ActionType_defs Let_def split_beta)

text \<open>
  C2, as amended. A call of \<open>ParseMacros\<close> invokes \<open>DownloadTorrentFile\<close> only when it finds
  \<open>TorrentTmpFile\<close> empty, and reads the file only when the byte cache is empty after the
  download step. A call that finds the path set leaves the Release as it is, but for the byte
  cache that a successful read fills. Over any number of successive calls against one
  Release: once the path is set no call downloads and the path is kept; once both caches are
  filled the calls make no download and no read and leave the Release and the world
  unchanged.
\<close>

theorem payload_caches_guard_and_reuse:
  "((\<exists>ok. EvDownload ok \<in> set (trace (ParseMacros env a release w))) \<longrightarrow>
       TorrentTmpFile release = '''')
   \<and> ((\<exists>p. EvReadFile p \<in> set (trace (ParseMacros env a release w))) \<longrightarrow>
       TorrentDataRawBytes
         (if download_required a release then fst (snd (DownloadTorrentFile env release w))
          else release) = [])
   \<and> (TorrentTmpFile release \<noteq> '''' \<longrightarrow>
       rel (ParseMacros env a release w) =
         (if read_required a release then
            (case ReadFile env w (TorrentTmpFile release) of
               Inl e \<Rightarrow> release
             | Inr t \<Rightarrow> release\<lparr>TorrentDataRawBytes := t\<rparr>)
          else release))
   \<and> (TorrentTmpFile release \<noteq> '''' \<longrightarrow>
       (\<forall>ok. EvDownload ok \<notin> set (snd (snd (ParseMacros_seq env as release w)))) \<and>
       TorrentTmpFile (fst (ParseMacros_seq env as release w)) = TorrentTmpFile release)
   \<and> (TorrentTmpFile release \<noteq> '''' \<and> TorrentDataRawBytes release \<noteq> [] \<longrightarrow>
       ParseMacros_seq env as release w = (release, w, []))"
proof (intro conjI impI allI)
  assume "\<exists>ok. EvDownload ok \<in> set (trace (ParseMacros env a release w))"
  then show "TorrentTmpFile release = ''''"
    using ParseMacros_no_download(1) [of release _ env a w] by blast
next
  assume "\<exists>p. EvReadFile p \<in> set (trace (ParseMacros env a release w))"
  then show "TorrentDataRawBytes
         (if download_required a release then fst (snd (DownloadTorrentFile env release w))
          else release) = []"
    by (cases "DownloadTorrentFile env release w")
       (auto simp: ParseMacros_trace read_required_def split: if_splits option.splits)
next
  assume "TorrentTmpFile release \<noteq> ''''"
  then show "rel (ParseMacros env a release w) =
         (if read_required a release then
            (case ReadFile env w (TorrentTmpFile release) of
               Inl e \<Rightarrow> release
             | Inr t \<Rightarrow> release\<lparr>TorrentDataRawBytes := t\<rparr>)
          else release)"
    by (rule ParseMacros_rel_with_path)
next
  fix ok
  assume "TorrentTmpFile release \<noteq> ''''"
  then show "EvDownload ok \<notin> set (snd (snd (ParseMacros_seq env as release w)))"
    by (rule ParseMacros_seq_no_download)
next
  assume "TorrentTmpFile release \<noteq> ''''"
  then show "TorrentTmpFile (fst (ParseMacros_seq env as release w)) = TorrentTmpFile release"
    by (rule ParseMacros_seq_tmpfile)
next
  assume "TorrentTmpFile release \<noteq> '''' \<and> TorrentDataRawBytes release \<noteq> []"
  then show "ParseMacros_seq env as release w = (release, w, [])"
    by (simp add: ParseMacros_seq_cached_fixpoint)
qed

theorem payload_caches_guard_and_reuse_witness:
  "(\<exists>ok. EvDownload ok \<in> set (trace (ParseMacros sample_env
        (zero_action\<lparr>Type := ActionTypeWebhook, WebhookData := ''{{.TorrentDataRawBytes}}''\<rparr>)
        fresh_release online)))
   \<and> (\<exists>p. EvReadFile p \<in> set (trace (ParseMacros sample_env
        (zero_action\<lparr>Type := ActionTypeWebhook, WebhookData := ''{{.TorrentDataRawBytes}}''\<rparr>)
        fresh_release online)))
   \<and> TorrentTmpFile fresh_release = ''''
   \<and> TorrentTmpFile (fresh_release\<lparr>TorrentTmpFile := ''/tmp/autobrr-1''\<rparr>) \<noteq> ''''
   \<and> rel (ParseMacros sample_env
        (zero_action\<lparr>Type := ActionTypeWebhook, WebhookData := ''{{.TorrentDataRawBytes}}''\<rparr>)
        (fresh_release\<lparr>TorrentTmpFile := ''/tmp/autobrr-1''\<rparr>)
        (online\<lparr>files := [''/tmp/autobrr-1'' \<mapsto> [100, 101]]\<rparr>)) =
      fresh_release\<lparr>TorrentTmpFile := ''/tmp/autobrr-1'', TorrentDataRawBytes := [100, 101]\<rparr>
   \<and> (\<forall>ok. EvDownload ok \<notin> set (snd (snd (ParseMacros_seq sample_env
        [zero_action\<lparr>Type := ActionTypeWebhook, WebhookData := ''{{.TorrentDataRawBytes}}''\<rparr>,
         zero_action\<lparr>Type := ActionTypeWatchFolder\<rparr>]
        (fresh_release\<lparr>TorrentTmpFile := ''/tmp/autobrr-1''\<rparr>)
        (online\<lparr>files := [''/tmp/autobrr-1'' \<mapsto> [100, 101]]\<rparr>)))))
   \<and> ParseMacros_seq sample_env
        [zero_action\<lparr>Type := ActionTypeWebhook, WebhookData := ''{{.TorrentDataRawBytes}}''\<rparr>,
         zero_action\<lparr>Type := ActionTypeWatchFolder\<rparr>]
        (fresh_release\<lparr>TorrentTmpFile := ''/tmp/autobrr-1'', TorrentDataRawBytes := [100, 101]\<rparr>)
        online =
      (fresh_release\<lparr>TorrentTmpFile := ''/tmp/autobrr-1'', TorrentDataRawBytes := [100, 101]\<rparr>,
       online, [])"
proof -
  let ?a = "zero_action\<lparr>Type := ActionTypeWebhook, WebhookData := ''{{.TorrentDataRawBytes}}''\<rparr>"
  let ?as = "[?a, zero_action\<lparr>Type := ActionTypeWatchFolder\<rparr>]"
  let ?path = "fresh_release\<lparr>TorrentTmpFile := ''/tmp/autobrr-1''\<rparr>"
  let ?both = "fresh_release\<lparr>TorrentTmpFile := ''/tmp/autobrr-1'', TorrentDataRawBytes := [100, 101]\<rparr>"
  let ?disk = "online\<lparr>files := [''/tmp/autobrr-1'' \<mapsto> [100, 101]]\<rparr>"
  have tr: "trace (ParseMacros sample_env ?a fresh_release online) =
      [EvDownload True, EvReadFile ''/tmp/autobrr-1'']"
    by (simp add: ParseMacros_trace download_required_def read_required_def sample_defs)
  have dl: "\<exists>ok. EvDownload ok \<in> set (trace (ParseMacros sample_env ?a fresh_release online))"
    by (auto simp: tr)
  have rd: "\<exists>p. EvReadFile p \<in> set (trace (ParseMacros sample_env ?a fresh_release online))"
    by (simp add: tr)
  have p: "TorrentTmpFile ?path \<noteq> ''''"
    by simp
  have b: "TorrentTmpFile ?both \<noteq> '''' \<and> TorrentDataRawBytes ?both \<noteq> []"
    by simp
  note fresh = payload_caches_guard_and_reuse [of sample_env ?a fresh_release online ?as]
  note path = payload_caches_guard_and_reuse [of sample_env ?a ?path ?disk ?as]
  note both = payload_caches_guard_and_reuse [of sample_env ?a ?both online ?as]
  have c1: "TorrentTmpFile fresh_release = ''''"
    using fresh dl by blast
  have c3: "rel (ParseMacros sample_env ?a ?path ?disk) = ?both"
    using path p by (simp add: read_required_def sample_defs)
  have c4: "\<forall>ok. EvDownload ok \<notin> set (snd (snd (ParseMacros_seq sample_env ?as ?path ?disk)))"
    using path p by blast
  have c5: "ParseMacros_seq sample_env ?as ?both online = (?both, online, [])"
    using both b by blast
  show ?thesis
    using dl rd c1 p c3 c4 c5 by blast
qed

text \<open>
  Three Actions that all reference the raw payload, run against a Release with nothing
  cached: one download and one read, both by the first call.
\<close>

lemma three_actions_fetch_once:
  "snd (snd (ParseMacros_seq sample_env
      [zero_action\<lparr>Type := ActionTypeWebhook, WebhookData := ''{{.TorrentDataRawBytes}}''\<rparr>,
       zero_action\<lparr>Type := ActionTypeExec, ExecArgs := ''{{.TorrentDataRawBytes}}''\<rparr>,
       zero_action\<lparr>Type := ActionTypeWebhook, WebhookData := ''{{.TorrentDataRawBytes}}''\<rparr>]
      fresh_release online)) =
   [EvDownload True, EvReadFile ''/tmp/autobrr-1'']"
  by (simp add: ParseMacros_trace read_and_parse_def ParseMacros_def download_required_def read_required_def
      sample_defs ActionType_defs Let_def split_beta)

text \<open>
  C3. For an Action of type WatchFolder and a Release with no temporary file, whatever the
  Action's template fields hold, \<open>ParseMacros\<close> calls \<open>DownloadTorrentFile\<close> first. If the
  download fails the call returns the wrapped error. If it succeeds and the byte cache is
  still empty, the temporary file is read, and a successful read stores its bytes in the
  Release; a byte cache that is already filled is kept.
\<close>

theorem WatchFolder_forces_fetch:
  assumes "Type a = ActionTypeWatchFolder" and "TorrentTmpFile release = ''''"
  shows "case DownloadTorrentFile env release w of
           (Some e, r', w') \<Rightarrow>
             trace (ParseMacros env a release w) = [EvDownload False] \<and>
             err (ParseMacros env a release w) =
               Some (Wrap e ''webhook: could not download torrent file for release: %v''
                       [ArgStr (TorrentName r')])
         | (None, r', w') \<Rightarrow>
             (if TorrentDataRawBytes r' = [] then
                trace (ParseMacros env a release w) = [EvDownload True, EvReadFile (TorrentTmpFile r')] \<and>
                (case ReadFile env w' (TorrentTmpFile r') of
                   Inl e \<Rightarrow>
                     err (ParseMacros env a release w) =
                       Some (Wrap e ''could not read torrent file: %v'' [ArgStr (TorrentTmpFile r')])
                 | Inr t \<Rightarrow> rel (ParseMacros env a release w) = r'\<lparr>TorrentDataRawBytes := t\<rparr>)
              else
                trace (ParseMacros env a release w) = [EvDownload True] \<and>
                rel (ParseMacros env a release w) = r')"
  using assms
  by (simp add: ParseMacros_defs Let_def split_beta split: prod.split option.split sum.split)

theorem WatchFolder_forces_fetch_witness:
  "Type (zero_action\<lparr>Type := ActionTypeWatchFolder\<rparr>) = ActionTypeWatchFolder
   \<and> TorrentTmpFile fresh_release = ''''
   \<and> trace (ParseMacros sample_env (zero_action\<lparr>Type := ActionTypeWatchFolder\<rparr>) fresh_release online) =
       [EvDownload True, EvReadFile ''/tmp/autobrr-1'']
   \<and> rel (ParseMacros sample_env (zero_action\<lparr>Type := ActionTypeWatchFolder\<rparr>) fresh_release online) =
       \<lparr>TorrentName = ''Some.Release'', TorrentTmpFile = ''/tmp/autobrr-1'',
        TorrentDataRawBytes = [100, 101]\<rparr>"
proof -
  have t: "Type (zero_action\<lparr>Type := ActionTypeWatchFolder\<rparr>) = ActionTypeWatchFolder"
    by simp
  have f: "TorrentTmpFile fresh_release = ''''"
    by (simp add: fresh_release_def)
  show ?thesis
    using t f WatchFolder_forces_fetch [OF t f, of sample_env online]
    by (simp add: sample_defs)
qed

text \<open>
  C4. The claim, that a reference to the placeholders in any templated field causes the
  fetch, fails on the code: the condition of lines 64-67 looks at \<open>ExecArgs\<close>,
  \<open>WebhookData\<close> and \<open>SavePath\<close> only. Here \<open>Category\<close> references
  \<open>TorrentPathName\<close>, the Release has no temporary file, and no call is made to the
  outside: the placeholder resolves to the empty path.
\<close>

theorem Category_placeholder_triggers_no_fetch:
  "Contains (Category (zero_action\<lparr>Type := ActionTypeQbittorrent, Category := ''{{.TorrentPathName}}''\<rparr>))
     ''TorrentPathName''
   \<and> TorrentTmpFile fresh_release = ''''
   \<and> trace (ParseMacros sample_env
        (zero_action\<lparr>Type := ActionTypeQbittorrent, Category := ''{{.TorrentPathName}}''\<rparr>)
        fresh_release online) = []
   \<and> err (ParseMacros sample_env
        (zero_action\<lparr>Type := ActionTypeQbittorrent, Category := ''{{.TorrentPathName}}''\<rparr>)
        fresh_release online) = None
   \<and> Category (act (ParseMacros sample_env
        (zero_action\<lparr>Type := ActionTypeQbittorrent, Category := ''{{.TorrentPathName}}''\<rparr>)
        fresh_release online)) = ''''"
  by (simp add: eval_defs split_beta)

text \<open>
  C4, as amended. \<open>ParseMacros\<close> calls \<open>DownloadTorrentFile\<close> exactly when the Release has
  no temporary file and \<open>ExecArgs\<close> or \<open>WebhookData\<close> contains \<open>TorrentPathName\<close> or
  \<open>TorrentDataRawBytes\<close>, or \<open>SavePath\<close> contains \<open>TorrentPathName\<close>, or the type is
  WatchFolder. The download is the first call made, and a call that returns nil has
  substituted against the Release as the fetch left it.
\<close>

theorem fetch_triggered_by_three_fields_or_type:
  "((\<exists>ok. EvDownload ok \<in> set (trace (ParseMacros env a release w))) \<longleftrightarrow>
      TorrentTmpFile release = '''' \<and>
      (Contains (ExecArgs a) ''TorrentPathName'' \<or> Contains (ExecArgs a) ''TorrentDataRawBytes'' \<or>
       Contains (WebhookData a) ''TorrentPathName'' \<or> Contains (WebhookData a) ''TorrentDataRawBytes'' \<or>
       Contains (SavePath a) ''TorrentPathName'' \<or> Type a = ActionTypeWatchFolder))
   \<and> (\<forall>ok. EvDownload ok \<in> set (trace (ParseMacros env a release w)) \<longrightarrow>
         (\<exists>tr. trace (ParseMacros env a release w) = EvDownload ok # tr))
   \<and> (err (ParseMacros env a release w) = None \<longrightarrow>
         act (ParseMacros env a release w) = snd (parse_fields env a (rel (ParseMacros env a release w))))"
proof (intro conjI)
  show "(\<exists>ok. EvDownload ok \<in> set (trace (ParseMacros env a release w))) \<longleftrightarrow>
      TorrentTmpFile release = '''' \<and>
      (Contains (ExecArgs a) ''TorrentPathName'' \<or> Contains (ExecArgs a) ''TorrentDataRawBytes'' \<or>
       Contains (WebhookData a) ''TorrentPathName'' \<or> Contains (WebhookData a) ''TorrentDataRawBytes'' \<or>
       Contains (SavePath a) ''TorrentPathName'' \<or> Type a = ActionTypeWatchFolder)"
    unfolding download_required_def [symmetric]
  proof (cases "DownloadTorrentFile env release w")
    case (fields d r' w')
    then show "(\<exists>ok. EvDownload ok \<in> set (trace (ParseMacros env a release w))) \<longleftrightarrow>
        download_required a release"
      by (cases d) (auto simp: ParseMacros_trace)
  qed
  show "\<forall>ok. EvDownload ok \<in> set (trace (ParseMacros env a release w)) \<longrightarrow>
         (\<exists>tr. trace (ParseMacros env a release w) = EvDownload ok # tr)"
    by (auto simp: ParseMacros_trace split: prod.splits option.splits)
  show "err (ParseMacros env a release w) = None \<longrightarrow>
         act (ParseMacros env a release w) = snd (parse_fields env a (rel (ParseMacros env a release w)))"
    by (auto simp: ParseMacros_def read_and_parse_def Let_def split_beta
        split: prod.splits option.splits sum.splits)
qed

theorem fetch_triggered_by_three_fields_or_type_witness:
  "(\<exists>ok. EvDownload ok \<in> set (trace (ParseMacros sample_env
        (zero_action\<lparr>Type := ActionTypeExec, ExecArgs := ''{{.TorrentPathName}}''\<rparr>) fresh_release online)))
   \<and> trace (ParseMacros sample_env
        (zero_action\<lparr>Type := ActionTypeExec, ExecArgs := ''{{.TorrentPathName}}''\<rparr>) fresh_release online) =
       [EvDownload True]
   \<and> err (ParseMacros sample_env
        (zero_action\<lparr>Type := ActionTypeExec, ExecArgs := ''{{.TorrentPathName}}''\<rparr>) fresh_release online) = None
   \<and> ExecArgs (act (ParseMacros sample_env
        (zero_action\<lparr>Type := ActionTypeExec, ExecArgs := ''{{.TorrentPathName}}''\<rparr>) fresh_release online)) =
       ''/tmp/autobrr-1''"
  using fetch_triggered_by_three_fields_or_type [of sample_env
      "zero_action\<lparr>Type := ActionTypeExec, ExecArgs := ''{{.TorrentPathName}}''\<rparr>" fresh_release online]
  by (simp add: eval_defs split_beta)

text \<open>
  What a call does to the Action: nothing when the download or the read fails, and otherwise
  each of the seven templated fields receives what \<open>Parse\<close> returned on its previous value,
  resolved against the Release as the fetch left it. The other fields are never written.
\<close>

lemma ParseMacros_act:
  "act (ParseMacros env a release w) =
     (let resolve = (\<lambda>r.
            a\<lparr>ExecArgs := fst (Parse env (NewMacro env r) (ExecArgs a)),
              WatchFolder := fst (Parse env (NewMacro env r) (WatchFolder a)),
              Category := fst (Parse env (NewMacro env r) (Category a)),
              Tags := fst (Parse env (NewMacro env r) (Tags a)),
              Label := fst (Parse env (NewMacro env r) (Label a)),
              SavePath := fst (Parse env (NewMacro env r) (SavePath a)),
              WebhookData := fst (Parse env (NewMacro env r) (WebhookData a))\<rparr>)
      in case (if download_required a release then DownloadTorrentFile env release w
               else (None, release, w)) of
           (Some e, r1, w1) \<Rightarrow> a
         | (None, r1, w1) \<Rightarrow>
             (if read_required a r1 then
                (case ReadFile env w1 (TorrentTmpFile r1) of
                   Inl e \<Rightarrow> a
                 | Inr t \<Rightarrow> resolve (r1\<lparr>TorrentDataRawBytes := t\<rparr>))
              else resolve r1))"
  by (simp add: ParseMacros_def read_and_parse_def parse_fields_act Let_def split_beta
      split: prod.split option.split sum.split)

lemma ParseMacros_frame:
  "act (ParseMacros env a release w)
     \<lparr>ExecArgs := ExecArgs a, WatchFolder := WatchFolder a, Category := Category a,
      Tags := Tags a, Label := Label a, SavePath := SavePath a, WebhookData := WebhookData a\<rparr> = a"
  by (simp add: ParseMacros_def read_and_parse_act_frame split: prod.split option.split)

text \<open>
  C5. The claim, that macro resolution works on a copy and leaves every field of the original
  Action unchanged, fails on the code: \<open>ParseMacros\<close> has a pointer receiver and assigns the
  resolved text to the fields of the Action it is called on. Here the Action stored at
  address 0 holds a template in \<open>ExecArgs\<close> before the call and the release name after it.
\<close>

theorem ParseMacros_ptr_changes_stored_action:
  "[0 \<mapsto> zero_action\<lparr>Type := ActionTypeExec, ExecArgs := ''{{.TorrentName}}''\<rparr>] (0::nat) =
     Some (zero_action\<lparr>Type := ActionTypeExec, ExecArgs := ''{{.TorrentName}}''\<rparr>)
   \<and> (case ParseMacros_ptr sample_env
             [0 \<mapsto> zero_action\<lparr>Type := ActionTypeExec, ExecArgs := ''{{.TorrentName}}''\<rparr>] 0
             fresh_release online of
         None \<Rightarrow> False
       | Some (out, store') \<Rightarrow>
           err out = None \<and>
           store' 0 = Some (zero_action\<lparr>Type := ActionTypeExec, ExecArgs := ''Some.Release''\<rparr>))
   \<and> zero_action\<lparr>Type := ActionTypeExec, ExecArgs := ''Some.Release''\<rparr> \<noteq>
       zero_action\<lparr>Type := ActionTypeExec, ExecArgs := ''{{.TorrentName}}''\<rparr>"
  by (simp add: ParseMacros_ptr_def eval_defs split_beta Let_def)

text \<open>
  C5, as amended. \<open>ParseMacros\<close> makes no copy: called through a pointer, it updates the
  Action stored there and no other. When the download or the read fails that Action is left
  as it was; otherwise each of its seven templated fields is overwritten with the text that
  \<open>Parse\<close> returned for it, also when that \<open>Parse\<close> failed, and every other field keeps
  its value.
\<close>

theorem ParseMacros_ptr_overwrites_receiver:
  "store p = Some a \<longrightarrow>
     (case ParseMacros_ptr env store p release w of
        None \<Rightarrow> False
      | Some (out, store') \<Rightarrow>
          out = ParseMacros env a release w \<and>
          store' = store(p \<mapsto> act out) \<and>
          act out =
            (let resolve = (\<lambda>r.
                   a\<lparr>ExecArgs := fst (Parse env (NewMacro env r) (ExecArgs a)),
                     WatchFolder := fst (Parse env (NewMacro env r) (WatchFolder a)),
                     Category := fst (Parse env (NewMacro env r) (Category a)),
                     Tags := fst (Parse env (NewMacro env r) (Tags a)),
                     Label := fst (Parse env (NewMacro env r) (Label a)),
                     SavePath := fst (Parse env (NewMacro env r) (SavePath a)),
                     WebhookData := fst (Parse env (NewMacro env r) (WebhookData a))\<rparr>)
             in case (if download_required a release then DownloadTorrentFile env release w
                      else (None, release, w)) of
                  (Some e, r1, w1) \<Rightarrow> a
                | (None, r1, w1) \<Rightarrow>
                    (if read_required a r1 then
                       (case ReadFile env w1 (TorrentTmpFile r1) of
                          Inl e \<Rightarrow> a
                        | Inr t \<Rightarrow> resolve (r1\<lparr>TorrentDataRawBytes := t\<rparr>))
                     else resolve r1)))"
proof
  assume "store p = Some a"
  then have "ParseMacros_ptr env store p release w =
      Some (ParseMacros env a release w, store(p \<mapsto> act (ParseMacros env a release w)))"
    by (simp add: ParseMacros_ptr_def Let_def)
  then show "case ParseMacros_ptr env store p release w of
        None \<Rightarrow> False
      | Some (out, store') \<Rightarrow>
          out = ParseMacros env a release w \<and>
          store' = store(p \<mapsto> act out) \<and>
          act out =
            (let resolve = (\<lambda>r.
                   a\<lparr>ExecArgs := fst (Parse env (NewMacro env r) (ExecArgs a)),
                     WatchFolder := fst (Parse env (NewMacro env r) (WatchFolder a)),
                     Category := fst (Parse env (NewMacro env r) (Category a)),
                     Tags := fst (Parse env (NewMacro env r) (Tags a)),
                     Label := fst (Parse env (NewMacro env r) (Label a)),
                     SavePath := fst (Parse env (NewMacro env r) (SavePath a)),
                     WebhookData := fst (Parse env (NewMacro env r) (WebhookData a))\<rparr>)
             in case (if download_required a release then DownloadTorrentFile env release w
                      else (None, release, w)) of
                  (Some e, r1, w1) \<Rightarrow> a
                | (None, r1, w1) \<Rightarrow>
                    (if read_required a r1 then
                       (case ReadFile env w1 (TorrentTmpFile r1) of
                          Inl e \<Rightarrow> a
                        | Inr t \<Rightarrow> resolve (r1\<lparr>TorrentDataRawBytes := t\<rparr>))
                     else resolve r1))"
    using ParseMacros_act [of env a release w] by simp
qed

theorem ParseMacros_ptr_overwrites_receiver_witness:
  "[0 \<mapsto> zero_action\<lparr>Type := ActionTypeExec, ExecArgs := ''{{.TorrentName}}'', Label := ''{{.Nope}}''\<rparr>,
    1 \<mapsto> zero_action] (0::nat) =
     Some (zero_action\<lparr>Type := ActionTypeExec, ExecArgs := ''{{.TorrentName}}'', Label := ''{{.Nope}}''\<rparr>)
   \<and> (case ParseMacros_ptr sample_env
             [0 \<mapsto> zero_action\<lparr>Type := ActionTypeExec, ExecArgs := ''{{.TorrentName}}'', Label := ''{{.Nope}}''\<rparr>,
              1 \<mapsto> zero_action] 0 fresh_release online of
         None \<Rightarrow> False
       | Some (out, store') \<Rightarrow>
           store' 0 = Some (zero_action\<lparr>Type := ActionTypeExec, ExecArgs := ''Some.Release'', Label := ''''\<rparr>) \<and>
           store' 1 = Some zero_action)"
proof -
  let ?a = "zero_action\<lparr>Type := ActionTypeExec, ExecArgs := ''{{.TorrentName}}'', Label := ''{{.Nope}}''\<rparr>"
  let ?store = "[0 \<mapsto> ?a, 1 \<mapsto> zero_action] :: Action_store"
  have h: "?store 0 = Some ?a"
    by simp
  have nd: "\<not> download_required ?a fresh_release" and nr: "\<not> read_required ?a fresh_release"
    by (simp_all add: download_required_def read_required_def zero_action_def ActionType_defs)
  show ?thesis
    using h nd nr
      ParseMacros_ptr_overwrites_receiver [of ?store 0 ?a sample_env fresh_release online, THEN mp, OF h]
    by (auto simp: sample_defs split: option.splits)
qed

text \<open>
  C6. When \<open>DownloadTorrentFile\<close> is called and returns an error, and when the temporary
  file is to be read (with or without a download before it) and \<open>os.ReadFile\<close> returns an
  error, \<open>ParseMacros\<close> returns that error wrapped and the Action is as it was: no field has
  been substituted.
\<close>

theorem ParseMacros_fetch_failure:
  "(download_required a release \<and> DownloadTorrentFile env release w = (Some e, r', w') \<longrightarrow>
      err (ParseMacros env a release w) =
        Some (Wrap e ''webhook: could not download torrent file for release: %v'' [ArgStr (TorrentName r')])
      \<and> act (ParseMacros env a release w) = a)
   \<and> (\<not> download_required a release \<and> read_required a release \<and>
        ReadFile env w (TorrentTmpFile release) = Inl e \<longrightarrow>
      err (ParseMacros env a release w) =
        Some (Wrap e ''could not read torrent file: %v'' [ArgStr (TorrentTmpFile release)])
      \<and> act (ParseMacros env a release w) = a)
   \<and> (download_required a release \<and> DownloadTorrentFile env release w = (None, r', w') \<and>
        read_required a r' \<and> ReadFile env w' (TorrentTmpFile r') = Inl e \<longrightarrow>
      err (ParseMacros env a release w) =
        Some (Wrap e ''could not read torrent file: %v'' [ArgStr (TorrentTmpFile r')])
      \<and> act (ParseMacros env a release w) = a)"
  by (simp add: ParseMacros_def read_and_parse_def)

theorem ParseMacros_fetch_failure_witness:
  "err (ParseMacros sample_env (zero_action\<lparr>Type := ActionTypeWatchFolder, WatchFolder := ''/w/{{.TorrentName}}''\<rparr>)
         fresh_release offline) =
     Some (Wrap (New ''error downloading file'' [])
            ''webhook: could not download torrent file for release: %v'' [ArgStr ''Some.Release''])
   \<and> act (ParseMacros sample_env (zero_action\<lparr>Type := ActionTypeWatchFolder, WatchFolder := ''/w/{{.TorrentName}}''\<rparr>)
         fresh_release offline) =
     zero_action\<lparr>Type := ActionTypeWatchFolder, WatchFolder := ''/w/{{.TorrentName}}''\<rparr>
   \<and> err (ParseMacros sample_env (zero_action\<lparr>WebhookData := ''{{.TorrentDataRawBytes}}''\<rparr>)
         (fresh_release\<lparr>TorrentTmpFile := ''/tmp/gone''\<rparr>) online) =
     Some (Wrap (New ''open %v: no such file or directory'' [ArgStr ''/tmp/gone''])
            ''could not read torrent file: %v'' [ArgStr ''/tmp/gone''])
   \<and> act (ParseMacros sample_env (zero_action\<lparr>WebhookData := ''{{.TorrentDataRawBytes}}''\<rparr>)
         (fresh_release\<lparr>TorrentTmpFile := ''/tmp/gone''\<rparr>) online) =
     zero_action\<lparr>WebhookData := ''{{.TorrentDataRawBytes}}''\<rparr>
   \<and> err (ParseMacros (sample_env\<lparr>ReadFile := \<lambda>w path. Inl (New ''permission denied'' [])\<rparr>)
         (zero_action\<lparr>WebhookData := ''{{.TorrentDataRawBytes}}''\<rparr>) fresh_release online) =
     Some (Wrap (New ''permission denied'' [])
            ''could not read torrent file: %v'' [ArgStr ''/tmp/autobrr-1''])
   \<and> act (ParseMacros (sample_env\<lparr>ReadFile := \<lambda>w path. Inl (New ''permission denied'' [])\<rparr>)
         (zero_action\<lparr>WebhookData := ''{{.TorrentDataRawBytes}}''\<rparr>) fresh_release online) =
     zero_action\<lparr>WebhookData := ''{{.TorrentDataRawBytes}}''\<rparr>"
proof -
  let ?a1 = "zero_action\<lparr>Type := ActionTypeWatchFolder, WatchFolder := ''/w/{{.TorrentName}}''\<rparr>"
  let ?a2 = "zero_action\<lparr>WebhookData := ''{{.TorrentDataRawBytes}}''\<rparr>"
  let ?r2 = "fresh_release\<lparr>TorrentTmpFile := ''/tmp/gone''\<rparr>"
  let ?env3 = "sample_env\<lparr>ReadFile := \<lambda>w path. Inl (New ''permission denied'' [])\<rparr>
                 :: (sample_world, unit, Macro) macro_env"
  let ?r3 = "fresh_release\<lparr>TorrentTmpFile := ''/tmp/autobrr-1''\<rparr>"
  let ?w3 = "online\<lparr>files := (files online)(''/tmp/autobrr-1'' \<mapsto> [100, 101])\<rparr>"
  have h1: "download_required ?a1 fresh_release \<and>
      DownloadTorrentFile sample_env fresh_release offline =
        (Some (New ''error downloading file'' []), fresh_release, offline)"
    by (simp add: download_required_def sample_defs)
  have h2: "\<not> download_required ?a2 ?r2 \<and> read_required ?a2 ?r2 \<and>
      ReadFile sample_env online (TorrentTmpFile ?r2) =
        Inl (New ''open %v: no such file or directory'' [ArgStr ''/tmp/gone''])"
    by (simp add: download_required_def read_required_def sample_defs)
  have h3: "download_required ?a2 fresh_release \<and>
      DownloadTorrentFile ?env3 fresh_release online = (None, ?r3, ?w3) \<and>
      read_required ?a2 ?r3 \<and>
      ReadFile ?env3 ?w3 (TorrentTmpFile ?r3) = Inl (New ''permission denied'' [])"
    by (simp add: download_required_def read_required_def sample_defs)
  note t1 = ParseMacros_fetch_failure [of ?a1 fresh_release sample_env offline
        "New ''error downloading file'' []" fresh_release offline,
        THEN conjunct1, THEN mp, OF h1]
  note t2 = ParseMacros_fetch_failure [of ?a2 ?r2 sample_env online
        "New ''open %v: no such file or directory'' [ArgStr ''/tmp/gone'']" ?r2 online,
        THEN conjunct2, THEN conjunct1, THEN mp, OF h2]
  note t3 = ParseMacros_fetch_failure [of ?a2 fresh_release ?env3 online
        "New ''permission denied'' []" ?r3 ?w3,
        THEN conjunct2, THEN conjunct2, THEN mp, OF h3]
  show ?thesis
    using t1 t2 t3 by (simp add: fresh_release_def)
qed



lemma pure_env_sel:
  "DownloadTorrentFile' (pure_env env) = DownloadTorrentFile env"
  "ReadFile' (pure_env env) = ReadFile env"
  "NewMacro' (pure_env env) w = NewMacro env"
  "Parse' (pure_env env) w = Parse env"
  by (simp_all add: pure_env_def)

lemma parse_fields'_pure: "parse_fields' (pure_env env) w a release = parse_fields env a release"
  by (simp add: parse_fields'_def parse_fields_def pure_env_sel)

lemma read_and_parse'_pure:
  "read_and_parse' (pure_env env) a release w tr = read_and_parse env a release w tr"
  by (simp add: read_and_parse'_def read_and_parse_def parse_fields'_pure pure_env_sel
      split: sum.split)

lemma ParseMacros'_pure: "ParseMacros' (pure_env env) a release w = ParseMacros env a release w"
  by (simp add: ParseMacros'_def ParseMacros_def read_and_parse'_pure pure_env_sel
      split: prod.split option.split)





section \<open>The claims about the declarations\<close>

text \<open>
  \<open>ParseMacros\<close> looks at the type of an Action only to compare it with WatchFolder: two
  types other than WatchFolder give the same outcome, the type itself apart.
\<close>

lemma parse_fields_Type:
  "parse_fields env (a\<lparr>Type := t\<rparr>) release =
     (fst (parse_fields env a release), (snd (parse_fields env a release))\<lparr>Type := t\<rparr>)"
  by (rule prod_eqI) (simp_all add: parse_fields_err parse_fields_act split: option.split)

lemma ParseMacros_Type_other:
  assumes "t \<noteq> ActionTypeWatchFolder" and "t' \<noteq> ActionTypeWatchFolder"
  shows "ParseMacros env (a\<lparr>Type := t\<rparr>) release w =
     (ParseMacros env (a\<lparr>Type := t'\<rparr>) release w)
       \<lparr>act := (act (ParseMacros env (a\<lparr>Type := t'\<rparr>) release w))\<lparr>Type := t\<rparr>\<rparr>"
proof -
  have dr: "download_required (a\<lparr>Type := t\<rparr>) r = download_required (a\<lparr>Type := t'\<rparr>) r" for r :: "'b Release_scheme"
    using assms by (simp add: download_required_def)
  have rr: "read_required (a\<lparr>Type := t\<rparr>) r = read_required (a\<lparr>Type := t'\<rparr>) r" for r :: "'b Release_scheme"
    using assms by (simp add: read_required_def)
  have rp: "read_and_parse env (a\<lparr>Type := t\<rparr>) r v tr =
      (read_and_parse env (a\<lparr>Type := t'\<rparr>) r v tr)
        \<lparr>act := (act (read_and_parse env (a\<lparr>Type := t'\<rparr>) r v tr))\<lparr>Type := t\<rparr>\<rparr>" for r v tr
    by (simp add: read_and_parse_def rr [of r] parse_fields_Type Let_def split: sum.split)
  show ?thesis
    by (simp add: ParseMacros_def dr [of release] rp split: prod.split option.split)
qed

text \<open>
  C7. The claim, that \<open>ActionType\<close> is a closed enumeration, fails on the code:
  \<open>ActionType\<close> is declared as a string type, so every string is an \<open>ActionType\<close>.
  Here an Action whose type is none of the sixteen declared constants goes through
  \<open>ParseMacros\<close> like any other: nil is returned and \<open>ExecArgs\<close> is resolved.
\<close>

theorem undeclared_ActionType_is_accepted:
  "''NOT_A_TYPE'' \<notin> set ActionType_consts
   \<and> err (ParseMacros sample_env
        (zero_action\<lparr>Type := ''NOT_A_TYPE'', ExecArgs := ''{{.TorrentName}}''\<rparr>)
        fresh_release online) = None
   \<and> act (ParseMacros sample_env
        (zero_action\<lparr>Type := ''NOT_A_TYPE'', ExecArgs := ''{{.TorrentName}}''\<rparr>)
        fresh_release online) =
      zero_action\<lparr>Type := ''NOT_A_TYPE'', ExecArgs := ''Some.Release''\<rparr>"
  by (simp add: ActionType_consts_def eval_defs split_beta)

text \<open>
  C7, as amended. \<open>ActionType\<close> is a string type whose \<open>const\<close> block declares sixteen
  constants, pairwise distinct: the sixteen variants the specification names. The type is
  not closed, and \<open>ParseMacros\<close> rejects no type: every type other than WatchFolder, declared
  or not, is treated alike. The reannounce policy of an Action is the four fields
  \<open>ReAnnounceSkip\<close> and \<open>ReAnnounceDelete\<close> (booleans), \<open>ReAnnounceInterval\<close> and
  \<open>ReAnnounceMaxAttempts\<close> (64-bit integers): each is set and read independently of the
  others, and giving an Action the four fields of another makes the two equal exactly when
  they agree on all twenty-eight other fields.
\<close>

theorem ActionType_constants_and_reannounce_fields:
  "distinct ActionType_consts
   \<and> length ActionType_consts = 16
   \<and> set ActionType_consts =
       {ActionTypeTest, ActionTypeExec, ActionTypeWatchFolder, ActionTypeWebhook,
        ActionTypeQbittorrent, ActionTypeDelugeV1, ActionTypeDelugeV2, ActionTypeRTorrent,
        ActionTypeTransmission, ActionTypePorla, ActionTypeRadarr, ActionTypeSonarr,
        ActionTypeLidarr, ActionTypeWhisparr, ActionTypeReadarr, ActionTypeSabnzbd}
   \<and> (t \<noteq> ActionTypeWatchFolder \<and> t' \<noteq> ActionTypeWatchFolder \<longrightarrow>
        ParseMacros env (a\<lparr>Type := t\<rparr>) release w =
          (ParseMacros env (a\<lparr>Type := t'\<rparr>) release w)
            \<lparr>act := (act (ParseMacros env (a\<lparr>Type := t'\<rparr>) release w))\<lparr>Type := t\<rparr>\<rparr>)
   \<and> (\<forall>(skip :: bool) (delete :: bool) (interval :: 64 word) (attempts :: 64 word).
        ReAnnounceSkip (a\<lparr>ReAnnounceSkip := skip, ReAnnounceDelete := delete,
            ReAnnounceInterval := interval, ReAnnounceMaxAttempts := attempts\<rparr>) = skip
      \<and> ReAnnounceDelete (a\<lparr>ReAnnounceSkip := skip, ReAnnounceDelete := delete,
            ReAnnounceInterval := interval, ReAnnounceMaxAttempts := attempts\<rparr>) = delete
      \<and> ReAnnounceInterval (a\<lparr>ReAnnounceSkip := skip, ReAnnounceDelete := delete,
            ReAnnounceInterval := interval, ReAnnounceMaxAttempts := attempts\<rparr>) = interval
      \<and> ReAnnounceMaxAttempts (a\<lparr>ReAnnounceSkip := skip, ReAnnounceDelete := delete,
            ReAnnounceInterval := interval, ReAnnounceMaxAttempts := attempts\<rparr>) = attempts)
   \<and> (a\<lparr>ReAnnounceSkip := ReAnnounceSkip b, ReAnnounceDelete := ReAnnounceDelete b,
          ReAnnounceInterval := ReAnnounceInterval b,
          ReAnnounceMaxAttempts := ReAnnounceMaxAttempts b\<rparr> = b \<longleftrightarrow>
        ID a = ID b \<and> Name a = Name b \<and> Type a = Type b \<and>
        Action.Enabled a = Action.Enabled b \<and> ExecCmd a = ExecCmd b \<and>
        ExecArgs a = ExecArgs b \<and> WatchFolder a = WatchFolder b \<and> Category a = Category b \<and>
        Tags a = Tags b \<and> Label a = Label b \<and> SavePath a = SavePath b \<and>
        Paused a = Paused b \<and> IgnoreRules a = IgnoreRules b \<and>
        SkipHashCheck a = SkipHashCheck b \<and> ContentLayout a = ContentLayout b \<and>
        LimitUploadSpeed a = LimitUploadSpeed b \<and> LimitDownloadSpeed a = LimitDownloadSpeed b \<and>
        LimitRatio a = LimitRatio b \<and> LimitSeedTime a = LimitSeedTime b \<and>
        WebhookHost a = WebhookHost b \<and> WebhookType a = WebhookType b \<and>
        WebhookMethod a = WebhookMethod b \<and> WebhookData a = WebhookData b \<and>
        WebhookHeaders a = WebhookHeaders b \<and>
        ExternalDownloadClientID a = ExternalDownloadClientID b \<and> FilterID a = FilterID b \<and>
        ClientID a = ClientID b \<and> Client a = Client b)"
proof (intro conjI)
  show "distinct ActionType_consts"
    by (simp add: ActionType_consts_def ActionType_defs)
  show "length ActionType_consts = 16"
    by (simp add: ActionType_consts_def)
  show "set ActionType_consts =
       {ActionTypeTest, ActionTypeExec, ActionTypeWatchFolder, ActionTypeWebhook,
        ActionTypeQbittorrent, ActionTypeDelugeV1, ActionTypeDelugeV2, ActionTypeRTorrent,
        ActionTypeTransmission, ActionTypePorla, ActionTypeRadarr, ActionTypeSonarr,
        ActionTypeLidarr, ActionTypeWhisparr, ActionTypeReadarr, ActionTypeSabnzbd}"
    unfolding ActionType_consts_def by (simp only: list.set) blast
  show "t \<noteq> ActionTypeWatchFolder \<and> t' \<noteq> ActionTypeWatchFolder \<longrightarrow>
        ParseMacros env (a\<lparr>Type := t\<rparr>) release w =
          (ParseMacros env (a\<lparr>Type := t'\<rparr>) release w)
            \<lparr>act := (act (ParseMacros env (a\<lparr>Type := t'\<rparr>) release w))\<lparr>Type := t\<rparr>\<rparr>"
    using ParseMacros_Type_other [of t t' env a release w] by blast
  show "a\<lparr>ReAnnounceSkip := ReAnnounceSkip b, ReAnnounceDelete := ReAnnounceDelete b,
          ReAnnounceInterval := ReAnnounceInterval b,
          ReAnnounceMaxAttempts := ReAnnounceMaxAttempts b\<rparr> = b \<longleftrightarrow>
        ID a = ID b \<and> Name a = Name b \<and> Type a = Type b \<and>
        Action.Enabled a = Action.Enabled b \<and> ExecCmd a = ExecCmd b \<and>
        ExecArgs a = ExecArgs b \<and> WatchFolder a = WatchFolder b \<and> Category a = Category b \<and>
        Tags a = Tags b \<and> Label a = Label b \<and> SavePath a = SavePath b \<and>
        Paused a = Paused b \<and> IgnoreRules a = IgnoreRules b \<and>
        SkipHashCheck a = SkipHashCheck b \<and> ContentLayout a = ContentLayout b \<and>
        LimitUploadSpeed a = LimitUploadSpeed b \<and> LimitDownloadSpeed a = LimitDownloadSpeed b \<and>
        LimitRatio a = LimitRatio b \<and> LimitSeedTime a = LimitSeedTime b \<and>
        WebhookHost a = WebhookHost b \<and> WebhookType a = WebhookType b \<and>
        WebhookMethod a = WebhookMethod b \<and> WebhookData a = WebhookData b \<and>
        WebhookHeaders a = WebhookHeaders b \<and>
        ExternalDownloadClientID a = ExternalDownloadClientID b \<and> FilterID a = FilterID b \<and>
        ClientID a = ClientID b \<and> Client a = Client b"
    by (cases a, cases b) auto
qed simp

theorem ActionType_constants_and_reannounce_fields_witness:
  "''NOT_A_TYPE'' \<noteq> ActionTypeWatchFolder \<and> ActionTypeTest \<noteq> ActionTypeWatchFolder
   \<and> ParseMacros sample_env (zero_action\<lparr>ExecArgs := ''{{.TorrentName}}'', Type := ''NOT_A_TYPE''\<rparr>)
        fresh_release online =
      (ParseMacros sample_env (zero_action\<lparr>ExecArgs := ''{{.TorrentName}}'', Type := ActionTypeTest\<rparr>)
        fresh_release online)
        \<lparr>act := (act (ParseMacros sample_env
                  (zero_action\<lparr>ExecArgs := ''{{.TorrentName}}'', Type := ActionTypeTest\<rparr>)
                  fresh_release online))\<lparr>Type := ''NOT_A_TYPE''\<rparr>\<rparr>"
proof -
  have h: "''NOT_A_TYPE'' \<noteq> ActionTypeWatchFolder \<and> ActionTypeTest \<noteq> ActionTypeWatchFolder"
    by (simp add: ActionType_defs)
  show ?thesis
    using h ActionType_constants_and_reannounce_fields
      [of "''NOT_A_TYPE''" ActionTypeTest sample_env
        "zero_action\<lparr>ExecArgs := ''{{.TorrentName}}''\<rparr>" fresh_release online]
    by blast
qed

section \<open>The claims about the pushover sender\<close>

lemma Events_loop_mem: "Events_loop es event \<longleftrightarrow> event \<in> set es"
  by (induction es) auto

text \<open>
  C9. \<open>CanSend(event)\<close> is true exactly when the settings are enabled, the API key and the
  token are non-empty, and the event's string occurs in the settings' events.
\<close>

theorem CanSend_iff:
  "CanSend s event \<longleftrightarrow>
     Notification.Enabled (Settings s) \<and> APIKey (Settings s) \<noteq> '''' \<and>
     Notification.Token (Settings s) \<noteq> '''' \<and> event \<in> set (Events (Settings s))"
  by (simp add: CanSend_def isEnabled_def isEnabledEvent_def Events_loop_mem)

lemma Send_data_expire:
  "Send_data env s event payload ''expire'' =
     (if Notification.Priority (Settings s) = 2 then Some [''3600''] else None)"
  by (simp add: Send_data_def Values_Set_def Let_def)

lemma Send_data_retry:
  "Send_data env s event payload ''retry'' =
     (if Notification.Priority (Settings s) = 2 then Some [''60''] else None)"
  by (simp add: Send_data_def Values_Set_def Let_def)

text \<open>
  C10. \<open>Send\<close> returns nil exactly when the request is built, the transport returns a
  response, its body is read and its status code is 200; every other status code and every
  failure of one of these steps gives an error. The form data holds \<open>expire = 3600\<close> and
  \<open>retry = 60\<close> exactly when the configured priority is 2.
\<close>

theorem Send_nil_iff_status_200:
  "(Send env s event payload = None \<longleftrightarrow>
      (\<exists>req res body.
         NewRequest env ''POST'' (baseUrl s) (Encode env (Send_data env s event payload)) = Inr req \<and>
         Do env (Header_Set (Header_Set req ''Content-Type'' ''application/x-www-form-urlencoded'')
                   ''User-Agent'' ''autobrr'') = Inr res \<and>
         Body res = Inr body \<and> StatusCode res = 200))
   \<and> Send_data env s event payload ''expire'' =
       (if Notification.Priority (Settings s) = 2 then Some [''3600''] else None)
   \<and> Send_data env s event payload ''retry'' =
       (if Notification.Priority (Settings s) = 2 then Some [''60''] else None)"
proof (intro conjI)
  show "Send env s event payload = None \<longleftrightarrow>
      (\<exists>req res body.
         NewRequest env ''POST'' (baseUrl s) (Encode env (Send_data env s event payload)) = Inr req \<and>
         Do env (Header_Set (Header_Set req ''Content-Type'' ''application/x-www-form-urlencoded'')
                   ''User-Agent'' ''autobrr'') = Inr res \<and>
         Body res = Inr body \<and> StatusCode res = 200)"
    by (auto simp: Send_def StatusOK_def Let_def split: sum.splits)
qed (rule Send_data_expire Send_data_retry)+

text \<open>On the sample transport: status 204 is an error, status 200 is not.\<close>

lemma Send_sample_statuses:
  "Send (sample_send_env 204) sample_sender ''PUSH_APPROVED'' ''body'' =
     Some (New ''bad status: %v body: %v'' [ArgInt 204, ArgStr ''{}''])
   \<and> Send (sample_send_env 200) sample_sender ''PUSH_APPROVED'' ''body'' = None
   \<and> Send (sample_send_env 200) (sample_sender\<lparr>baseUrl := ''''\<rparr>) ''PUSH_APPROVED'' ''body'' =
     Some (Wrap (New ''empty url'' []) ''could not create request'' [])"
  by (simp add: Send_def sample_send_env_def sample_sender_def StatusOK_def Header_Set_def)

end
